theory Spec2Isabelle
  imports
    Complex_Main
    "HOL-Library.Char_ord"
    "HOL-Library.List_Lexorder"
    "HOL-Library.Multiset"
    "HOL-Library.Product_Lexorder"
begin

section \<open>Numeric cells\<close>

text \<open>
  The dashboard script \<^verbatim>\<open>arnaldo.py\<close> computes on pandas columns of dtype
  float64. What the script's behaviour depends on is the special values of that type:
  \<^verbatim>\<open>NaN\<close> (pandas' marker of a missing cell, the mean of nothing, \<open>0 / 0\<close>), the two
  infinities (\<open>x / 0\<close> for \<open>x \<noteq> 0\<close>) and the two zeros, which are equal and divide
  differently. A cell is therefore one of these or a finite number: \<open>Fin 0\<close> is the
  zero \<open>+0.0\<close> and \<open>NZero\<close> the zero \<open>-0.0\<close>. Finite arithmetic is exact here
  (rationals): binary rounding, overflow to infinity and underflow to zero are left out.
\<close>

datatype fval = NaN | NInf | Fin rat | NZero | PInf

text \<open>
  \<^verbatim>\<open>a <= b\<close> on floats: every comparison with \<^verbatim>\<open>NaN\<close> is false, and the two zeros
  compare as equal.
\<close>

fun fle :: "fval \<Rightarrow> fval \<Rightarrow> bool" where
  "fle NaN _ = False"
| "fle _ NaN = False"
| "fle NInf _ = True"
| "fle _ PInf = True"
| "fle (Fin x) (Fin y) = (x \<le> y)"
| "fle (Fin x) NZero = (x \<le> 0)"
| "fle NZero (Fin y) = (0 \<le> y)"
| "fle NZero NZero = True"
| "fle _ _ = False"

text \<open>\<^verbatim>\<open>a >= b\<close>.\<close>

definition fge :: "fval \<Rightarrow> fval \<Rightarrow> bool" where
  "fge a b = fle b a"

text \<open>\<^verbatim>\<open>a == b\<close> on floats, and the zeros and infinities by their sign.\<close>

definition feq :: "fval \<Rightarrow> fval \<Rightarrow> bool" where
  "feq a b \<longleftrightarrow> fle a b \<and> fle b a"

definition signed_zero :: "bool \<Rightarrow> fval" where
  "signed_zero negative = (if negative then NZero else Fin 0)"

definition signed_inf :: "bool \<Rightarrow> fval" where
  "signed_inf negative = (if negative then NInf else PInf)"

fun fneg :: "fval \<Rightarrow> fval" where
  "fneg NaN = NaN"
| "fneg NInf = PInf"
| "fneg PInf = NInf"
| "fneg NZero = Fin 0"
| "fneg (Fin x) = (if x = 0 then NZero else Fin (- x))"

text \<open>
  \<^verbatim>\<open>a + b\<close>: \<^verbatim>\<open>NaN\<close> propagates, and \<open>inf + (-inf)\<close> is \<^verbatim>\<open>NaN\<close>. A sum that is
  zero is \<open>+0.0\<close> unless both summands are \<open>-0.0\<close>.
\<close>

fun fadd :: "fval \<Rightarrow> fval \<Rightarrow> fval" where
  "fadd NaN _ = NaN"
| "fadd _ NaN = NaN"
| "fadd PInf NInf = NaN"
| "fadd NInf PInf = NaN"
| "fadd PInf _ = PInf"
| "fadd _ PInf = PInf"
| "fadd NInf _ = NInf"
| "fadd _ NInf = NInf"
| "fadd NZero NZero = NZero"
| "fadd NZero (Fin y) = Fin y"
| "fadd (Fin x) NZero = Fin x"
| "fadd (Fin x) (Fin y) = Fin (x + y)"

text \<open>\<^verbatim>\<open>a - b\<close>.\<close>

definition fsub :: "fval \<Rightarrow> fval \<Rightarrow> fval" where
  "fsub a b = fadd a (fneg b)"

text \<open>
  \<^verbatim>\<open>a / b\<close> on float64 columns. Division by zero raises nothing: a zero by a zero is
  \<^verbatim>\<open>NaN\<close>, and any other number by a zero is an infinity, negative when exactly one of
  the two is negative, \<open>-0.0\<close> counting as negative. In the same way a zero quotient
  has the sign of the two operands.
\<close>

fun fdiv :: "fval \<Rightarrow> fval \<Rightarrow> fval" where
  "fdiv NaN _ = NaN"
| "fdiv _ NaN = NaN"
| "fdiv (Fin x) (Fin y) =
     (if y = 0 then (if x = 0 then NaN else signed_inf (x < 0))
      else if x = 0 then signed_zero (y < 0)
      else Fin (x / y))"
| "fdiv (Fin x) NZero = (if x = 0 then NaN else signed_inf (0 < x))"
| "fdiv NZero (Fin y) = (if y = 0 then NaN else signed_zero (0 < y))"
| "fdiv NZero NZero = NaN"
| "fdiv (Fin x) PInf = signed_zero (x < 0)"
| "fdiv (Fin x) NInf = signed_zero (0 \<le> x)"
| "fdiv NZero PInf = NZero"
| "fdiv NZero NInf = Fin 0"
| "fdiv PInf (Fin y) = signed_inf (y < 0)"
| "fdiv PInf NZero = NInf"
| "fdiv NInf (Fin y) = signed_inf (0 \<le> y)"
| "fdiv NInf NZero = PInf"
| "fdiv _ _ = NaN"

text \<open>An integer cell (the column \<^verbatim>\<open>Ano\<close>) read as a number.\<close>

definition num :: "int \<Rightarrow> fval" where
  "num i = Fin (of_int i)"

text \<open>
  Python's truth value of a float: both zeros are false, everything else (also
  \<^verbatim>\<open>NaN\<close>) is true.
\<close>

definition truthy :: "fval \<Rightarrow> bool" where
  "truthy v = (v \<noteq> Fin 0 \<and> v \<noteq> NZero)"

subsection \<open>Column reductions\<close>

text \<open>
  \<^verbatim>\<open>Series.sum()\<close>, \<^verbatim>\<open>Series.mean()\<close>, \<^verbatim>\<open>Series.min()\<close> and \<^verbatim>\<open>Series.max()\<close> skip
  \<^verbatim>\<open>NaN\<close> cells (\<^verbatim>\<open>skipna=True\<close>). The sum of nothing is 0; the mean, minimum and
  maximum of nothing are \<^verbatim>\<open>NaN\<close>. The cells are added from \<open>+0.0\<close> in the order
  of the column; which zero a library version returns for a sum of zeros only, and
  which of two equal zeros it returns as the minimum or maximum, is not modelled.
\<close>

definition notna :: "fval list \<Rightarrow> fval list" where
  "notna xs = filter (\<lambda>v. v \<noteq> NaN) xs"

definition series_sum :: "fval list \<Rightarrow> fval" where
  "series_sum xs = foldl fadd (Fin 0) (notna xs)"

definition series_mean :: "fval list \<Rightarrow> fval" where
  "series_mean xs =
     (if notna xs = [] then NaN
      else fdiv (series_sum xs) (Fin (of_nat (length (notna xs)))))"

definition series_min :: "fval list \<Rightarrow> fval" where
  "series_min xs =
     (case notna xs of [] \<Rightarrow> NaN
      | y # ys \<Rightarrow> foldl (\<lambda>m v. if fle v m then v else m) y ys)"

definition series_max :: "fval list \<Rightarrow> fval" where
  "series_max xs =
     (case notna xs of [] \<Rightarrow> NaN
      | y # ys \<Rightarrow> foldl (\<lambda>m v. if fle m v then v else m) y ys)"

section \<open>Tables\<close>

text \<open>One row of the loaded sheet, with the columns the script names.\<close>

record row =
  Nome_Compania :: string
  Regiao :: string
  Ano :: int
  Receita :: fval
  MargemLucro :: fval
  Emissao_Carbono :: fval
  ESG_Geral :: fval
  ESG_Ambiental :: fval
  ESG_Social :: fval
  ESG_Governanca :: fval

text \<open>A row of \<^verbatim>\<open>df_filtered\<close>: the same columns and the calculated one.\<close>

record vrow = row +
  Emissao_por_Receita :: fval

text \<open>
  A data frame is either \<^verbatim>\<open>pd.DataFrame()\<close>, which has no columns and no rows, or a
  table of rows with all the columns. Selecting a column of the former raises
  \<^verbatim>\<open>KeyError\<close>.
\<close>

datatype 'r frame = EmptyFrame | Table "'r list"

text \<open>
  A cell of the sheet as it is read, before the loader coerces it: a number (a blank
  cell is \<^verbatim>\<open>NaN\<close>) or a text.
\<close>

datatype cell = Num fval | Text string

text \<open>
  The exceptions of the script: a missing column (\<^verbatim>\<open>df[name]\<close>), the missing
  columns of \<^verbatim>\<open>dropna(subset=...)\<close>, a failure of \<^verbatim>\<open>pd.read_excel\<close> with its message, a
  cell that \<^verbatim>\<open>astype(int)\<close> cannot convert, and a missing attribute of the session
  state.
\<close>

datatype error =
  KeyError string | KeyErrorList "string list" | ReadError string | CastError cell
  | AttributeError string

text \<open>Raising and catching: the first error ends the run of a block.\<close>

definition bind :: "error + 'a \<Rightarrow> ('a \<Rightarrow> error + 'b) \<Rightarrow> error + 'b" where
  "bind m k = (case m of Inl e \<Rightarrow> Inl e | Inr x \<Rightarrow> k x)"

text \<open>\<^verbatim>\<open>len(df)\<close> and \<^verbatim>\<open>df.empty\<close>.\<close>

fun len :: "'r frame \<Rightarrow> nat" where
  "len EmptyFrame = 0"
| "len (Table rs) = length rs"

fun frame_empty :: "'r frame \<Rightarrow> bool" where
  "frame_empty EmptyFrame = True"
| "frame_empty (Table rs) = (rs = [])"

text \<open>\<^verbatim>\<open>df[name]\<close>, the column as the list of its cells.\<close>

fun col :: "'r frame \<Rightarrow> string \<Rightarrow> ('r \<Rightarrow> 'a) \<Rightarrow> error + 'a list" where
  "col EmptyFrame name field = Inl (KeyError name)"
| "col (Table rs) name field = Inr (map field rs)"

section \<open>Loading\<close>

text \<open>
  What \<^verbatim>\<open>pd.read_excel\<close> returns: the names of the columns of the sheet and its rows.
  The four columns that the loader converts hold raw cells; the columns it leaves alone
  are taken as read (texts for the name and the region, numbers for the scores), and a
  sheet is assumed to have those. The value of a column that the sheet does not have is
  never read.
\<close>

record raw_row =
  raw_Nome_Compania :: string
  raw_Regiao :: string
  raw_Ano :: cell
  raw_Receita :: cell
  raw_MargemLucro :: cell
  raw_Emissao_Carbono :: cell
  raw_ESG_Geral :: fval
  raw_ESG_Ambiental :: fval
  raw_ESG_Social :: fval
  raw_ESG_Governanca :: fval

record sheet =
  columns :: "string list"
  raw_rows :: "raw_row list"

text \<open>
  \<^verbatim>\<open>str(e)\<close>, the text of an exception. The wording of pandas for a failed conversion
  is not modelled.
\<close>

definition quoted :: "string \<Rightarrow> string" where
  "quoted k = [CHR 0x27] @ k @ [CHR 0x27]"

fun comma_separated :: "string list \<Rightarrow> string" where
  "comma_separated [] = []"
| "comma_separated [k] = k"
| "comma_separated (k # ks) = k @ '', '' @ comma_separated ks"

fun str :: "error \<Rightarrow> string" where
  "str (KeyError k) = quoted k"
| "str (KeyErrorList ks) = ''['' @ comma_separated (map quoted ks) @ '']''"
| "str (ReadError m) = m"
| "str (CastError c) = ''cannot convert to integer''"
| "str (AttributeError a) = a"

text \<open>\<^verbatim>\<open>df[name]\<close> on the sheet raises \<^verbatim>\<open>KeyError\<close> when the column is missing.\<close>

definition require :: "sheet \<Rightarrow> string \<Rightarrow> error + unit" where
  "require sh name = (if name \<in> set (columns sh) then Inr () else Inl (KeyError name))"

text \<open>
  \<^verbatim>\<open>astype(int)\<close>, cell by cell: a finite number is cut towards zero, \<^verbatim>\<open>NaN\<close> and the
  infinities raise, a text is converted by Python's \<^verbatim>\<open>int\<close>, which is a parameter here
  (\<open>None\<close> when it raises).
\<close>

definition trunc :: "rat \<Rightarrow> int" where
  "trunc r = (if 0 \<le> r then \<lfloor>r\<rfloor> else \<lceil>r\<rceil>)"

fun astype_int :: "(string \<Rightarrow> int option) \<Rightarrow> cell \<Rightarrow> error + int" where
  "astype_int parse_int (Num (Fin r)) = Inr (trunc r)"
| "astype_int parse_int (Num NZero) = Inr 0"
| "astype_int parse_int (Num v) = Inl (CastError (Num v))"
| "astype_int parse_int (Text t) =
     (case parse_int t of Some i \<Rightarrow> Inr i | None \<Rightarrow> Inl (CastError (Text t)))"

text \<open>
  \<^verbatim>\<open>pd.to_numeric(..., errors='coerce')\<close>, cell by cell: a text that is not a number
  becomes \<^verbatim>\<open>NaN\<close>. The reading of a text as a number is a parameter.
\<close>

fun to_numeric :: "(string \<Rightarrow> fval option) \<Rightarrow> cell \<Rightarrow> fval" where
  "to_numeric parse_float (Num v) = v"
| "to_numeric parse_float (Text t) = (case parse_float t of Some v \<Rightarrow> v | None \<Rightarrow> NaN)"

fun traverse :: "('a \<Rightarrow> error + 'b) \<Rightarrow> 'a list \<Rightarrow> error + 'b list" where
  "traverse f [] = Inr []"
| "traverse f (x # xs) = bind (f x) (\<lambda>y. bind (traverse f xs) (\<lambda>ys. Inr (y # ys)))"

definition coerce :: "(string \<Rightarrow> fval option) \<Rightarrow> int \<Rightarrow> raw_row \<Rightarrow> row" where
  "coerce parse_float ano r =
     \<lparr>Nome_Compania = raw_Nome_Compania r, Regiao = raw_Regiao r, Ano = ano,
      Receita = to_numeric parse_float (raw_Receita r),
      MargemLucro = to_numeric parse_float (raw_MargemLucro r),
      Emissao_Carbono = to_numeric parse_float (raw_Emissao_Carbono r),
      ESG_Geral = raw_ESG_Geral r, ESG_Ambiental = raw_ESG_Ambiental r,
      ESG_Social = raw_ESG_Social r, ESG_Governanca = raw_ESG_Governanca r\<rparr>"

text \<open>
  Lines 33 to 39, the body of the \<^verbatim>\<open>try\<close>. The last argument is the outcome of
  \<^verbatim>\<open>pd.read_excel\<close>; the first two are Python's readings of a text as an integer and
  as a number.
\<close>

definition load_data_try ::
  "(string \<Rightarrow> int option) \<Rightarrow> (string \<Rightarrow> fval option) \<Rightarrow> error + sheet \<Rightarrow> error + row list" where
  "load_data_try parse_int parse_float read_excel =
     bind read_excel (\<lambda>sh.
     bind (require sh ''Ano'') (\<lambda>_.
     bind (traverse (\<lambda>r. astype_int parse_int (raw_Ano r)) (raw_rows sh)) (\<lambda>anos.
     bind (require sh ''Receita'') (\<lambda>_.
     bind (require sh ''MargemLucro'') (\<lambda>_.
     bind (require sh ''Emissao_Carbono'') (\<lambda>_.
     bind (case filter (\<lambda>name. name \<notin> set (columns sh)) [''ESG_Geral'', ''Receita''] of
             [] \<Rightarrow> Inr () | missing \<Rightarrow> Inl (KeyErrorList missing)) (\<lambda>_.
       Inr (filter (\<lambda>r. ESG_Geral r \<noteq> NaN \<and> Receita r \<noteq> NaN)
              (map (\<lambda>(ano, r). coerce parse_float ano r) (zip anos (raw_rows sh)))))))))))"

text \<open>
  Lines 30 to 42. Every exception of the body is caught, reported with \<^verbatim>\<open>st.error\<close>
  and answered with \<^verbatim>\<open>pd.DataFrame()\<close>. The result is the frame and the messages
  shown. The cache of \<^verbatim>\<open>st.cache_data\<close> is not modelled: a run reads the source anew.
\<close>

definition load_data ::
  "(string \<Rightarrow> int option) \<Rightarrow> (string \<Rightarrow> fval option) \<Rightarrow> error + sheet \<Rightarrow>
   row frame \<times> string list" where
  "load_data parse_int parse_float read_excel =
     (case load_data_try parse_int parse_float read_excel of
        Inr rs \<Rightarrow> (Table rs, [])
      | Inl e \<Rightarrow> (EmptyFrame, [''Erro ao carregar dados: '' @ str e]))"

section \<open>Applying the filters\<close>

text \<open>The values the four sidebar widgets return.\<close>

record filters =
  year_range :: "fval \<times> fval"
  regions :: "string list"
  revenue_range :: "fval \<times> fval"
  margin_range :: "fval \<times> fval"

text \<open>The boolean mask of lines 106 to 112, for one row.\<close>

definition row_mask :: "filters \<Rightarrow> row \<Rightarrow> bool" where
  "row_mask f r \<longleftrightarrow>
     fge (num (Ano r)) (fst (year_range f)) \<and>
     fle (num (Ano r)) (snd (year_range f)) \<and>
     Regiao r \<in> set (regions f) \<and>
     fge (Receita r) (fst (revenue_range f)) \<and>
     fle (Receita r) (snd (revenue_range f)) \<and>
     fge (MargemLucro r) (fst (margin_range f)) \<and>
     fle (MargemLucro r) (snd (margin_range f))"

text \<open>Line 116: the calculated column, cell by cell.\<close>

definition add_intensity :: "row \<Rightarrow> vrow" where
  "add_intensity r =
     row.extend r (vrow.fields (fdiv (Emissao_Carbono r) (Receita r)))"

text \<open>
  Lines 104 to 119. The only exception the \<^verbatim>\<open>try\<close> block can meet on well-typed
  cells is the \<^verbatim>\<open>KeyError\<close> of a frame without columns; it is caught, reported with
  \<^verbatim>\<open>st.error\<close>, and the view becomes \<^verbatim>\<open>pd.DataFrame()\<close>. The result is the view and
  the messages shown.
\<close>

definition df_filtered :: "row frame \<Rightarrow> filters \<Rightarrow> vrow frame \<times> string list" where
  "df_filtered df f =
     (case df of
        EmptyFrame \<Rightarrow> (EmptyFrame, [''Erro ao filtrar dados: '' @ str (KeyError ''Ano'')])
      | Table rs \<Rightarrow> (Table (map add_intensity (filter (row_mask f) rs)), []))"

section \<open>Key performance indicators\<close>

text \<open>
  One \<^verbatim>\<open>st.metric\<close> call: the number that is formatted as the value, and the number
  formatted as the delta, or \<open>None\<close> when the call passes \<^verbatim>\<open>delta=None\<close>.
\<close>

record 'a metric =
  m_value :: 'a
  m_delta :: "'a option"

text \<open>
  \<^verbatim>\<open>f(delta) if delta else None\<close>: Python's truth value of an optional number.
  \<^verbatim>\<open>None\<close> and zero are false.
\<close>

definition if_truthy_int :: "int option \<Rightarrow> int option" where
  "if_truthy_int d = (case d of None \<Rightarrow> None | Some x \<Rightarrow> if x \<noteq> 0 then Some x else None)"

definition if_truthy :: "fval option \<Rightarrow> fval option" where
  "if_truthy d = (case d of None \<Rightarrow> None | Some x \<Rightarrow> if truthy x then Some x else None)"

text \<open>Lines 131 to 137.\<close>

definition kpi_count :: "row frame \<Rightarrow> vrow frame \<Rightarrow> int metric" where
  "kpi_count df dff =
     (let delta = (if len dff \<noteq> len df then Some (int (len dff) - int (len df)) else None)
      in \<lparr>m_value = int (len dff), m_delta = if_truthy_int delta\<rparr>)"

text \<open>
  Lines 139 to 164 have one shape: a reduction of a column of the view, the same
  reduction of the base table subtracted from it unless the view is empty, and the
  metric. The conditional expression reads the base table's column only when the view
  is not empty.
\<close>

definition kpi_of ::
  "(fval list \<Rightarrow> fval) \<Rightarrow> string \<Rightarrow> row frame \<Rightarrow> vrow frame \<Rightarrow>
   (row \<Rightarrow> fval) \<Rightarrow> (vrow \<Rightarrow> fval) \<Rightarrow> error + fval metric" where
  "kpi_of reduce name df dff field vfield =
     bind (col dff name vfield) (\<lambda>c.
       let stat = reduce c in
       bind (if \<not> frame_empty dff
             then bind (col df name field) (\<lambda>b. Inr (Some (fsub stat (reduce b))))
             else Inr None) (\<lambda>delta.
         Inr \<lparr>m_value = stat, m_delta = if_truthy delta\<rparr>))"

definition kpi_esg :: "row frame \<Rightarrow> vrow frame \<Rightarrow> error + fval metric" where
  "kpi_esg df dff = kpi_of series_mean ''ESG_Geral'' df dff ESG_Geral ESG_Geral"

definition kpi_revenue :: "row frame \<Rightarrow> vrow frame \<Rightarrow> error + fval metric" where
  "kpi_revenue df dff = kpi_of series_mean ''Receita'' df dff Receita Receita"

definition kpi_emissions :: "row frame \<Rightarrow> vrow frame \<Rightarrow> error + fval metric" where
  "kpi_emissions df dff =
     kpi_of series_sum ''Emissao_Carbono'' df dff Emissao_Carbono Emissao_Carbono"

record kpis =
  k_count :: "int metric"
  k_esg :: "fval metric"
  k_revenue :: "fval metric"
  k_emissions :: "fval metric"

text \<open>Lines 130 to 164, in order.\<close>

definition show_kpis :: "row frame \<Rightarrow> vrow frame \<Rightarrow> error + kpis" where
  "show_kpis df dff =
     (let c = kpi_count df dff in
      bind (kpi_esg df dff) (\<lambda>e.
      bind (kpi_revenue df dff) (\<lambda>r.
      bind (kpi_emissions df dff) (\<lambda>t.
        Inr \<lparr>k_count = c, k_esg = e, k_revenue = r, k_emissions = t\<rparr>))))"

subsection \<open>The format \<^verbatim>\<open>.1f\<close>\<close>

text \<open>
  \<^verbatim>\<open>f"{x:.1f}"\<close>: \<^verbatim>\<open>NaN\<close> and the infinities print as words; a finite value is
  rounded to one decimal, a tie going to the even digit, and keeps its sign.
\<close>

definition round_half_even :: "rat \<Rightarrow> int" where
  "round_half_even x =
     (let f = \<lfloor>x\<rfloor>; d = x - of_int f
      in if d < 1 / 2 then f else if 1 / 2 < d then f + 1
         else if even f then f else f + 1)"

fun digits :: "nat \<Rightarrow> string" where
  "digits n =
     (if n < 10 then [''0123456789'' ! n]
      else digits (n div 10) @ [''0123456789'' ! (n mod 10)])"

definition fmt_1f :: "fval \<Rightarrow> string" where
  "fmt_1f v =
     (case v of
        NaN \<Rightarrow> ''nan''
      | PInf \<Rightarrow> ''inf''
      | NInf \<Rightarrow> ''-inf''
      | NZero \<Rightarrow> ''-0.0''
      | Fin x \<Rightarrow>
          (let n = nat (round_half_even (\<bar>x\<bar> * 10))
           in (if x < 0 then ''-'' else []) @ digits (n div 10) @ ''.'' @ digits (n mod 10)))"

section \<open>Ranking\<close>

text \<open>
  \<^verbatim>\<open>DataFrame.nlargest(n, column)\<close> with the default \<^verbatim>\<open>keep='first'\<close>, as pandas
  documents it: the rows in descending order of the column, the first occurrence first
  among equal cells, rows whose cell is \<^verbatim>\<open>NaN\<close> after all others in table order, and
  of these the first \<open>n\<close>; none when \<open>n\<close> is not positive.
\<close>

fun insert_desc :: "('r \<Rightarrow> fval) \<Rightarrow> 'r \<Rightarrow> 'r list \<Rightarrow> 'r list" where
  "insert_desc k x [] = [x]"
| "insert_desc k x (y # ys) =
     (if fle (k y) (k x) then x # y # ys else y # insert_desc k x ys)"

definition sort_desc :: "('r \<Rightarrow> fval) \<Rightarrow> 'r list \<Rightarrow> 'r list" where
  "sort_desc k xs = foldr (insert_desc k) xs []"

definition ranked :: "('r \<Rightarrow> fval) \<Rightarrow> 'r list \<Rightarrow> 'r list" where
  "ranked k rs =
     sort_desc k (filter (\<lambda>r. k r \<noteq> NaN) rs) @ filter (\<lambda>r. k r = NaN) rs"

definition nlargest :: "int \<Rightarrow> ('r \<Rightarrow> fval) \<Rightarrow> 'r list \<Rightarrow> 'r list" where
  "nlargest n k rs = take (nat n) (ranked k rs)"

text \<open>
  Lines 167 to 212. Each tab draws one bar chart of a ranking; the chart is modelled by
  the rows it is given.
\<close>

record top_charts =
  top_esg :: "vrow list"
  top_emitters :: "vrow list"
  top_revenue :: "vrow list"

definition plot_top_companies :: "vrow frame \<Rightarrow> error + top_charts" where
  "plot_top_companies dff =
     (case dff of
        EmptyFrame \<Rightarrow> Inl (KeyError ''ESG_Geral'')
      | Table vs \<Rightarrow>
          Inr \<lparr>top_esg = nlargest 5 ESG_Geral vs,
               top_emitters = nlargest 5 Emissao_Carbono vs,
               top_revenue = nlargest 5 Receita vs\<rparr>)"

section \<open>Trend\<close>

text \<open>
  \<^verbatim>\<open>groupby(['Ano', 'Regiao']).agg({...}).reset_index()\<close>: one row for each pair of
  keys that occurs, the pairs in ascending order (year first, then the region name,
  compared as Python compares strings), each with the mean or sum of its rows' cells.
  The group reductions skip \<^verbatim>\<open>NaN\<close> as the column reductions do.
\<close>

record trend_row =
  t_Ano :: int
  t_Regiao :: string
  t_ESG_Geral :: fval
  t_Receita :: fval
  t_Emissao_Carbono :: fval
  t_Emissao_por_Receita :: fval

definition group_key :: "vrow \<Rightarrow> int \<times> string" where
  "group_key r = (Ano r, Regiao r)"

definition group_keys :: "vrow list \<Rightarrow> (int \<times> string) list" where
  "group_keys vs = sort (remdups (map group_key vs))"

definition group_rows :: "vrow list \<Rightarrow> int \<times> string \<Rightarrow> vrow list" where
  "group_rows vs key = filter (\<lambda>r. group_key r = key) vs"

definition agg :: "vrow list \<Rightarrow> int \<times> string \<Rightarrow> trend_row" where
  "agg vs key =
     (let g = group_rows vs key
      in \<lparr>t_Ano = fst key, t_Regiao = snd key,
          t_ESG_Geral = series_mean (map ESG_Geral g),
          t_Receita = series_mean (map Receita g),
          t_Emissao_Carbono = series_sum (map Emissao_Carbono g),
          t_Emissao_por_Receita = series_mean (map Emissao_por_Receita g)\<rparr>)"

definition df_trend :: "vrow list \<Rightarrow> trend_row list" where
  "df_trend vs = map (agg vs) (group_keys vs)"

text \<open>Lines 214 to 250: both charts are drawn from \<^verbatim>\<open>df_trend\<close>.\<close>

definition plot_trend_analysis :: "vrow frame \<Rightarrow> error + trend_row list" where
  "plot_trend_analysis dff =
     (case dff of
        EmptyFrame \<Rightarrow> Inl (KeyError ''Ano'')
      | Table vs \<Rightarrow> Inr (df_trend vs))"

section \<open>The two main tabs\<close>

datatype 'a tab = Warning string | Drawn 'a

definition no_data :: string where
  "no_data = ''Nenhum dado encontrado com os filtros atuais.''"

text \<open>Lines 258 to 263.\<close>

definition tab1 :: "vrow frame \<Rightarrow> error + (top_charts \<times> trend_row list) tab" where
  "tab1 dff =
     (if \<not> frame_empty dff
      then bind (plot_top_companies dff) (\<lambda>tops.
           bind (plot_trend_analysis dff) (\<lambda>trend. Inr (Drawn (tops, trend))))
      else Inr (Warning no_data))"

text \<open>
  Lines 265 to 289: one radar chart for each region of the view, in order of first
  occurrence, of the means of the three component scores, the first repeated to close
  the polygon.
\<close>

definition radar :: "vrow list \<Rightarrow> string \<Rightarrow> string \<times> fval list" where
  "radar vs region =
     (let g = filter (\<lambda>r. Regiao r = region) vs;
          region_data = [series_mean (map ESG_Ambiental g), series_mean (map ESG_Social g),
                         series_mean (map ESG_Governanca g)]
      in (region, region_data @ [hd region_data]))"

definition tab2 :: "vrow frame \<Rightarrow> error + (string \<times> fval list) list tab" where
  "tab2 dff =
     (if \<not> frame_empty dff
      then (case dff of
              EmptyFrame \<Rightarrow> Inl (KeyError ''Regiao'')
            | Table vs \<Rightarrow> Inr (Drawn (map (radar vs) (rev (remdups (rev (map Regiao vs)))))))
      else Inr (Warning no_data))"

section \<open>Session state and sidebar\<close>

text \<open>
  \<^verbatim>\<open>st.session_state\<close>. The three ranges are tuples, which are values. The selection of
  regions is a Python list, an object: a key holds a reference to it, and \<open>lists\<close> is the
  store of the list objects, \<open>next_addr\<close> the next free reference. The dictionary
  under the key \<^verbatim>\<open>reset\<close> is the baseline.
\<close>

type_synonym addr = nat

record baseline =
  b_year_range :: "fval \<times> fval"
  b_regions :: addr
  b_revenue_range :: "fval \<times> fval"
  b_margin_range :: "fval \<times> fval"

record session_state =
  reset :: "baseline option"
  ss_year_range :: "(fval \<times> fval) option"
  ss_regions :: "addr option"
  ss_revenue_range :: "(fval \<times> fval) option"
  ss_margin_range :: "(fval \<times> fval) option"
  lists :: "addr \<Rightarrow> string list option"
  next_addr :: addr

definition fresh_session :: session_state where
  "fresh_session =
     \<lparr>reset = None, ss_year_range = None, ss_regions = None, ss_revenue_range = None,
      ss_margin_range = None, lists = (\<lambda>a. None), next_addr = 0\<rparr>"

text \<open>A new list object.\<close>

definition alloc :: "string list \<Rightarrow> session_state \<Rightarrow> addr \<times> session_state" where
  "alloc xs ss =
     (next_addr ss,
      ss\<lparr>lists := (lists ss)(next_addr ss \<mapsto> xs), next_addr := Suc (next_addr ss)\<rparr>)"

text \<open>
  Lines 47 to 53. The values of the dictionary are evaluated in order, so a frame
  without columns raises \<^verbatim>\<open>KeyError\<close> for \<^verbatim>\<open>Ano\<close>. \<^verbatim>\<open>sorted\<close> returns a new list.
\<close>

definition init_reset :: "row frame \<Rightarrow> session_state \<Rightarrow> error + session_state" where
  "init_reset df ss =
     (if reset ss = None then
        bind (col df ''Ano'' Ano) (\<lambda>anos.
        bind (col df ''Regiao'' Regiao) (\<lambda>regs.
        bind (col df ''Receita'' Receita) (\<lambda>recs.
        bind (col df ''MargemLucro'' MargemLucro) (\<lambda>margs.
          let (a, ss1) = alloc (sort (remdups regs)) ss
          in Inr (ss1\<lparr>reset := Some
                 \<lparr>b_year_range = (series_min (map num anos), series_max (map num anos)),
                  b_regions = a,
                  b_revenue_range = (series_min recs, series_max recs),
                  b_margin_range = (series_min margs, series_max margs)\<rparr>\<rparr>)))))
      else Inr ss)"

text \<open>\<^verbatim>\<open>st.session_state.reset\<close>, which raises when the key is missing.\<close>

definition the_reset :: "session_state \<Rightarrow> error + baseline" where
  "the_reset ss = (case reset ss of None \<Rightarrow> Inl (AttributeError ''reset'') | Some b \<Rightarrow> Inr b)"

text \<open>
  Lines 62 and 63, the loop of the reset button: each key of the baseline is bound to
  the baseline's value. For the regions the value is the reference to the baseline's
  list; nothing is copied.
\<close>

definition press_reset :: "session_state \<Rightarrow> error + session_state" where
  "press_reset ss =
     bind (the_reset ss) (\<lambda>b.
       Inr (ss\<lparr>ss_year_range := Some (b_year_range b), ss_regions := Some (b_regions b),
               ss_revenue_range := Some (b_revenue_range b),
               ss_margin_range := Some (b_margin_range b)\<rparr>))"

text \<open>\<^verbatim>\<open>st.session_state.get(key, default)\<close>.\<close>

definition get_or :: "'a option \<Rightarrow> 'a \<Rightarrow> 'a" where
  "get_or v d = (case v of Some x \<Rightarrow> x | None \<Rightarrow> d)"

text \<open>The list behind a reference; a reference is never dangling in a run of the script.\<close>

definition deref :: "session_state \<Rightarrow> addr \<Rightarrow> string list" where
  "deref ss a = (case lists ss a of Some xs \<Rightarrow> xs | None \<Rightarrow> [])"

text \<open>
  Lines 66 to 101, the four widgets. The arguments of a call are evaluated in order,
  the bounds from the frame before the value from the session state. A widget with a
  key returns the value bound to its key, or else the value it is given, and leaves its
  key bound to what it returns. The checks that a slider makes on its bounds and its
  value (bounds that are not apart, a value outside them) are not modelled.
\<close>

definition sidebar :: "row frame \<Rightarrow> session_state \<Rightarrow> error + filters \<times> session_state" where
  "sidebar df ss =
     bind (col df ''Ano'' Ano) (\<lambda>_.
     bind (the_reset ss) (\<lambda>b.
       let years = get_or (ss_year_range ss) (b_year_range b) in
     bind (col df ''Regiao'' Regiao) (\<lambda>_.
       let selected = get_or (ss_regions ss) (b_regions b) in
     bind (col df ''Receita'' Receita) (\<lambda>_.
       let revenue = get_or (ss_revenue_range ss) (b_revenue_range b) in
     bind (col df ''MargemLucro'' MargemLucro) (\<lambda>_.
       let margin = get_or (ss_margin_range ss) (b_margin_range b) in
       Inr (\<lparr>year_range = years, regions = deref ss selected, revenue_range = revenue,
             margin_range = margin\<rparr>,
            ss\<lparr>ss_year_range := Some years, ss_regions := Some selected,
               ss_revenue_range := Some revenue, ss_margin_range := Some margin\<rparr>))))))"

text \<open>
  Between two runs the widget layer, which is not part of the script, stores what the
  user has chosen: it binds the key of the widget to the new value. A new selection of
  regions is a new list.
\<close>

datatype update =
  SetYears "fval \<times> fval" | SetRegions "string list" | SetRevenue "fval \<times> fval"
  | SetMargin "fval \<times> fval"

fun apply_update :: "session_state \<Rightarrow> update \<Rightarrow> session_state" where
  "apply_update ss (SetYears v) = ss\<lparr>ss_year_range := Some v\<rparr>"
| "apply_update ss (SetRegions xs) = (let (a, ss1) = alloc xs ss in ss1\<lparr>ss_regions := Some a\<rparr>)"
| "apply_update ss (SetRevenue v) = ss\<lparr>ss_revenue_range := Some v\<rparr>"
| "apply_update ss (SetMargin v) = ss\<lparr>ss_margin_range := Some v\<rparr>"

section \<open>The script\<close>

text \<open>What one run shows.\<close>

record page =
  messages :: "string list"
  p_kpis :: kpis
  p_tab1 :: "(top_charts \<times> trend_row list) tab"
  p_tab2 :: "(string \<times> fval list) list tab"

text \<open>Lines 66 to 289: everything after the reset button.\<close>

definition body ::
  "row frame \<Rightarrow> string list \<Rightarrow> session_state \<Rightarrow> error + page \<times> session_state" where
  "body df msgs ss =
     bind (sidebar df ss) (\<lambda>(f, ss1).
       let (dff, msgs1) = df_filtered df f in
     bind (show_kpis df dff) (\<lambda>k.
     bind (tab1 dff) (\<lambda>t1.
     bind (tab2 dff) (\<lambda>t2.
       Inr (\<lparr>messages = msgs @ msgs1, p_kpis = k, p_tab1 = t1, p_tab2 = t2\<rparr>, ss1)))))"

text \<open>
  A run of the script, for the outcome of reading the file, whether the reset button was
  pressed, and the session state. An error is an exception that nothing catches: the run
  ends there. After the loop of the reset button \<^verbatim>\<open>st.rerun()\<close> starts the script
  again, with the button not pressed.
\<close>

definition script ::
  "(string \<Rightarrow> int option) \<Rightarrow> (string \<Rightarrow> fval option) \<Rightarrow> error + sheet \<Rightarrow> bool \<Rightarrow>
   session_state \<Rightarrow> error + page \<times> session_state" where
  "script parse_int parse_float read_excel pressed ss =
     (let (df, msgs) = load_data parse_int parse_float read_excel in
      bind (init_reset df ss) (\<lambda>ss1.
        if pressed then
          bind (press_reset ss1) (\<lambda>ss2.
          bind (init_reset df ss2) (\<lambda>ss3. body df msgs ss3))
        else body df msgs ss1))"

section \<open>The filter predicate as the specification words it\<close>

definition in_range :: "fval \<times> fval \<Rightarrow> fval \<Rightarrow> bool" where
  "in_range bounds x \<longleftrightarrow> fle (fst bounds) x \<and> fle x (snd bounds)"

definition passes :: "filters \<Rightarrow> row \<Rightarrow> bool" where
  "passes f r \<longleftrightarrow>
     in_range (year_range f) (num (Ano r)) \<and> Regiao r \<in> set (regions f) \<and>
     in_range (revenue_range f) (Receita r) \<and> in_range (margin_range f) (MargemLucro r)"

text \<open>
  When a delta is passed to \<^verbatim>\<open>st.metric\<close>, said in one place: the view has rows and
  the difference is not exactly zero.
\<close>

definition reported :: "bool \<Rightarrow> fval \<Rightarrow> fval option" where
  "reported nonempty d =
     (if nonempty \<and> d \<noteq> Fin 0 \<and> d \<noteq> NZero then Some d else None)"

fun is_fin :: "fval \<Rightarrow> bool" where
  "is_fin (Fin x) = True"
| "is_fin NZero = True"
| "is_fin _ = False"

text \<open>
  Two cells tie in a ranking when they are equal as floats (the two zeros are) or are
  both missing.
\<close>

definition same_key :: "fval \<Rightarrow> fval \<Rightarrow> bool" where
  "same_key a b \<longleftrightarrow> (a = NaN \<and> b = NaN) \<or> feq a b"

section \<open>Example tables\<close>

text \<open>
  The three-record table of the specification's example. The example gives a name, a
  region, a year, a revenue and a score for each record; the margins and the emissions,
  which it leaves open, are parameters, and the component scores are missing.
\<close>

definition example_row ::
  "string \<Rightarrow> string \<Rightarrow> int \<Rightarrow> rat \<Rightarrow> rat \<Rightarrow> fval \<Rightarrow> fval \<Rightarrow> row" where
  "example_row name region year revenue esg margin emissions =
     \<lparr>Nome_Compania = name, Regiao = region, Ano = year, Receita = Fin revenue,
      MargemLucro = margin, Emissao_Carbono = emissions, ESG_Geral = Fin esg,
      ESG_Ambiental = NaN, ESG_Social = NaN, ESG_Governanca = NaN\<rparr>"

definition example_base :: "fval \<Rightarrow> fval \<Rightarrow> fval \<Rightarrow> fval \<Rightarrow> fval \<Rightarrow> fval \<Rightarrow> row list" where
  "example_base m1 m2 m3 e1 e2 e3 =
     [example_row ''Acme'' ''NA'' 2020 100 50 m1 e1,
      example_row ''Beta'' ''EU'' 2020 200 80 m2 e2,
      example_row ''Acme'' ''NA'' 2021 150 60 m3 e3]"

definition example_filters :: filters where
  "example_filters =
     \<lparr>year_range = (Fin 2020, Fin 2021), regions = [''NA'', ''EU''],
      revenue_range = (Fin 0, Fin 1000), margin_range = (Fin (- 100), Fin 100)\<rparr>"


text \<open>
  Seven records: three of 2020 in NA, of which two have no revenue (one with emissions,
  one without); three of 2021 in EU, one without revenue and emissions; and one of 2022
  in SA whose revenue is the negative zero.
\<close>

definition mixed_base :: "row list" where
  "mixed_base =
     [example_row ''Acme'' ''NA'' 2020 0 50 (Fin 10) (Fin 5),
      example_row ''Beta'' ''NA'' 2020 0 50 (Fin 10) (Fin 0),
      example_row ''Gama'' ''NA'' 2020 100 50 (Fin 10) (Fin 5),
      example_row ''Acme'' ''EU'' 2021 0 50 (Fin 10) (Fin 0),
      example_row ''Beta'' ''EU'' 2021 100 50 (Fin 10) (Fin 5),
      example_row ''Gama'' ''EU'' 2021 100 50 (Fin 10) (Fin 15),
      (example_row ''Delta'' ''SA'' 2022 0 50 (Fin 10) (Fin 5))\<lparr>Receita := NZero\<rparr>]"

definition wide_filters :: filters where
  "wide_filters =
     \<lparr>year_range = (NInf, PInf), regions = [''NA'', ''EU''],
      revenue_range = (NInf, PInf), margin_range = (NInf, PInf)\<rparr>"

text \<open>Two records with the same score, revenue and no emissions, in different years.\<close>

definition twin_base :: "row list" where
  "twin_base =
     [example_row ''Acme'' ''NA'' 2020 100 50 (Fin 10) (Fin 0),
      example_row ''Beta'' ''NA'' 2021 100 50 (Fin 10) (Fin 0)]"

definition only_2020 :: filters where
  "only_2020 = wide_filters\<lparr>year_range := (Fin 2020, Fin 2020)\<rparr>"

text \<open>The session state after lines 47 to 53 on the table of two records, from nothing.\<close>

definition twin_session :: session_state where
  "twin_session =
     \<lparr>reset = Some \<lparr>b_year_range = (Fin 2020, Fin 2021), b_regions = 0,
                     b_revenue_range = (Fin 100, Fin 100),
                     b_margin_range = (Fin 10, Fin 10)\<rparr>,
      ss_year_range = None, ss_regions = None, ss_revenue_range = None,
      ss_margin_range = None, lists = (\<lambda>a. None)(0 \<mapsto> [''NA'']), next_addr = 1\<rparr>"

section \<open>Properties\<close>

lemma signed_simps [simp]:
  "signed_inf True = NInf" "signed_inf False = PInf"
  "signed_zero True = NZero" "signed_zero False = Fin 0"
  by (simp_all add: signed_inf_def signed_zero_def)

lemma truncate_add_intensity: "row.truncate (add_intensity r) = r"
  by (simp add: add_intensity_def row.defs vrow.defs)

lemma mask_passes: "row_mask f = passes f"
  by (auto simp: row_mask_def passes_def in_range_def fge_def fun_eq_iff)

text \<open>
  C4. On a base table, the filtered view is, column for column of the base table, the
  rows of the base table that satisfy all four range and membership conditions, in the
  order of the base table; no message is shown.
\<close>

theorem C4_filtered_view_is_filter:
  "\<exists>view. df_filtered (Table base) f = (Table view, []) \<and>
          map row.truncate view = filter (passes f) base"
  by (simp add: df_filtered_def comp_def truncate_add_intensity mask_passes)

subsection \<open>Ranking\<close>

lemma fle_refl: "v \<noteq> NaN \<Longrightarrow> fle v v"
  by (cases v) auto

lemma fle_total: "a \<noteq> NaN \<Longrightarrow> b \<noteq> NaN \<Longrightarrow> \<not> fle a b \<Longrightarrow> fle b a"
  by (cases a; cases b) auto

lemma fle_trans: "fle a b \<Longrightarrow> fle b c \<Longrightarrow> fle a c"
  by (cases a; cases b; cases c) auto

lemma fle_not_NaN: "fle a b \<Longrightarrow> a \<noteq> NaN \<and> b \<noteq> NaN"
  by (cases a; cases b) auto

lemma set_insert_desc: "set (insert_desc k x ys) = insert x (set ys)"
  by (induction ys) auto

lemma mset_insert_desc: "mset (insert_desc k x ys) = add_mset x (mset ys)"
  by (induction ys) auto

lemma set_sort_desc: "set (sort_desc k xs) = set xs"
  by (induction xs) (auto simp: sort_desc_def set_insert_desc)

lemma mset_sort_desc: "mset (sort_desc k xs) = mset xs"
  by (induction xs) (auto simp: sort_desc_def mset_insert_desc)

lemma sorted_insert_desc:
  assumes "sorted_wrt (\<lambda>a b. fle (k b) (k a)) ys" and "k x \<noteq> NaN" and "\<forall>y\<in>set ys. k y \<noteq> NaN"
  shows "sorted_wrt (\<lambda>a b. fle (k b) (k a)) (insert_desc k x ys)"
  using assms
proof (induction ys)
  case Nil
  then show ?case by simp
next
  case (Cons y ys)
  show ?case
  proof (cases "fle (k y) (k x)")
    case True
    have "\<forall>z\<in>set ys. fle (k z) (k x)"
      using Cons.prems(1) True by (auto intro: fle_trans)
    with True Cons.prems(1) show ?thesis by simp
  next
    case False
    have "fle (k x) (k y)"
      using False Cons.prems by (auto intro: fle_total)
    with False Cons show ?thesis by (auto simp: set_insert_desc)
  qed
qed

lemma sorted_sort_desc:
  "\<forall>x\<in>set xs. k x \<noteq> NaN \<Longrightarrow> sorted_wrt (\<lambda>a b. fle (k b) (k a)) (sort_desc k xs)"
proof (induction xs)
  case Nil
  then show ?case by (simp add: sort_desc_def)
next
  case (Cons x xs)
  have "sorted_wrt (\<lambda>a b. fle (k b) (k a)) (insert_desc k x (sort_desc k xs))"
    using Cons by (intro sorted_insert_desc) (auto simp: set_sort_desc)
  then show ?case by (simp add: sort_desc_def)
qed

text \<open>
  A row is put before the first row that is not larger: it passes no row that ties
  with it.
\<close>

lemma filter_insert_desc_other:
  "\<not> same_key (k x) v \<Longrightarrow>
   filter (\<lambda>r. same_key (k r) v) (insert_desc k x ys) = filter (\<lambda>r. same_key (k r) v) ys"
  by (induction ys) auto

lemma filter_insert_desc_same:
  assumes "k x \<noteq> NaN" and "same_key (k x) v"
  shows "filter (\<lambda>r. same_key (k r) v) (insert_desc k x ys)
         = x # filter (\<lambda>r. same_key (k r) v) ys"
proof (induction ys)
  case Nil
  with assms show ?case by simp
next
  case (Cons y ys)
  have xv: "fle (k x) v" "fle v (k x)"
    using assms by (auto simp: same_key_def feq_def)
  show ?case
  proof (cases "fle (k y) (k x)")
    case True
    with assms show ?thesis by simp
  next
    case False
    have "\<not> same_key (k y) v"
    proof
      assume "same_key (k y) v"
      then have "fle (k y) v"
        using xv fle_not_NaN by (auto simp: same_key_def feq_def)
      with xv have "fle (k y) (k x)"
        by (blast intro: fle_trans)
      with False show False by simp
    qed
    with False Cons show ?thesis by simp
  qed
qed

lemma sort_desc_stable:
  "\<forall>x\<in>set xs. k x \<noteq> NaN \<Longrightarrow>
   filter (\<lambda>r. same_key (k r) v) (sort_desc k xs) = filter (\<lambda>r. same_key (k r) v) xs"
proof (induction xs)
  case Nil
  then show ?case by (simp add: sort_desc_def)
next
  case (Cons x xs)
  have step: "sort_desc k (x # xs) = insert_desc k x (sort_desc k xs)"
    by (simp add: sort_desc_def)
  show ?case
  proof (cases "same_key (k x) v")
    case True
    with Cons show ?thesis
      unfolding step by (simp add: filter_insert_desc_same)
  next
    case False
    with Cons show ?thesis
      unfolding step by (simp add: filter_insert_desc_other)
  qed
qed

lemma mset_ranked: "mset (ranked k rs) = mset rs"
  by (induction rs) (auto simp: ranked_def mset_sort_desc)

lemma length_ranked: "length (ranked k rs) = length rs"
  using mset_ranked [of k rs] by (metis size_mset)

lemma sorted_ranked: "sorted_wrt (\<lambda>a b. k b = NaN \<or> fle (k b) (k a)) (ranked k rs)"
proof -
  have "sorted_wrt (\<lambda>a b. fle (k b) (k a)) (sort_desc k (filter (\<lambda>r. k r \<noteq> NaN) rs))"
    by (rule sorted_sort_desc) simp
  then have "sorted_wrt (\<lambda>a b. k b = NaN \<or> fle (k b) (k a))
      (sort_desc k (filter (\<lambda>r. k r \<noteq> NaN) rs))"
    by (rule sorted_wrt_mono_rel [rotated]) simp
  moreover have "sorted_wrt (\<lambda>a b. k b = NaN \<or> fle (k b) (k a)) (filter (\<lambda>r. k r = NaN) rs)"
    by (induction rs) auto
  ultimately show ?thesis
    by (auto simp: ranked_def sorted_wrt_append)
qed

lemma same_key_NaN: "same_key a NaN \<longleftrightarrow> a = NaN" "same_key NaN b \<longleftrightarrow> b = NaN"
  by (auto simp: same_key_def feq_def)

lemma filter_ranked:
  "filter (\<lambda>r. same_key (k r) v) (ranked k rs) = filter (\<lambda>r. same_key (k r) v) rs"
proof (cases "v = NaN")
  case True
  have "filter (\<lambda>r. k r = NaN) (sort_desc k (filter (\<lambda>r. k r \<noteq> NaN) rs)) = []"
    by (auto simp: filter_empty_conv set_sort_desc)
  with True show ?thesis by (simp add: ranked_def same_key_NaN)
next
  case False
  have "filter (\<lambda>r. same_key (k r) v) (sort_desc k (filter (\<lambda>r. k r \<noteq> NaN) rs))
        = filter (\<lambda>r. same_key (k r) v) (filter (\<lambda>r. k r \<noteq> NaN) rs)"
    by (rule sort_desc_stable) simp
  also have "\<dots> = filter (\<lambda>r. same_key (k r) v) rs"
    using False by (auto intro: filter_cong simp: same_key_NaN)
  finally show ?thesis
    using False by (auto simp: ranked_def filter_empty_conv same_key_NaN)
qed

text \<open>
  C7. The ranking of \<open>n\<close> rows by a column is the beginning of one arrangement of all
  the rows of the view: an arrangement in descending order of the column, with the rows
  that miss the value last, in which the rows that tie are in the order they have in
  the view. So no row left out is larger than a row kept. The ranking has
  \<open>min(n, rows of the view)\<close> rows, none for a count below zero and none for the empty
  view. The three rankings of the script are the ones of five rows by score, emissions
  and revenue.
\<close>

theorem C7_nlargest_sorted_stable:
  "(\<exists>rest.
      mset (nlargest n k rs @ rest) = mset rs \<and>
      sorted_wrt (\<lambda>a b. k b = NaN \<or> fle (k b) (k a)) (nlargest n k rs @ rest) \<and>
      (\<forall>v. filter (\<lambda>r. same_key (k r) v) (nlargest n k rs @ rest)
            = filter (\<lambda>r. same_key (k r) v) rs)) \<and>
   length (nlargest n k rs) = min (nat n) (length rs) \<and>
   (0 \<le> n \<longrightarrow> int (length (nlargest n k rs)) = min n (int (length rs))) \<and>
   plot_top_companies (Table vs) =
     Inr \<lparr>top_esg = nlargest 5 ESG_Geral vs, top_emitters = nlargest 5 Emissao_Carbono vs,
          top_revenue = nlargest 5 Receita vs\<rparr>"
proof -
  have "nlargest n k rs @ drop (nat n) (ranked k rs) = ranked k rs"
    by (simp add: nlargest_def)
  then have "\<exists>rest.
      mset (nlargest n k rs @ rest) = mset rs \<and>
      sorted_wrt (\<lambda>a b. k b = NaN \<or> fle (k b) (k a)) (nlargest n k rs @ rest) \<and>
      (\<forall>v. filter (\<lambda>r. same_key (k r) v) (nlargest n k rs @ rest)
            = filter (\<lambda>r. same_key (k r) v) rs)"
    using mset_ranked [of k rs] sorted_ranked [of k rs] filter_ranked [of k _ rs]
    by (intro exI [of _ "drop (nat n) (ranked k rs)"]) (simp only: simp_thms)
  moreover have "length (nlargest n k rs) = min (nat n) (length rs)"
    by (simp add: nlargest_def length_ranked min.commute)
  moreover have "0 \<le> n \<longrightarrow> int (min (nat n) (length rs)) = min n (int (length rs))"
    by auto
  ultimately show ?thesis
    by (simp add: plot_top_companies_def)
qed

theorem C7_nlargest_sorted_stable_witness:
  "(0::int) \<le> 5 \<and>
   int (length (nlargest 5 ESG_Geral (map add_intensity twin_base)))
     = min 5 (int (length (map add_intensity twin_base))) \<and>
   length (nlargest 5 ESG_Geral (map add_intensity twin_base)) = 2"
proof -
  have "length twin_base = 2"
    by (simp add: twin_base_def)
  then show ?thesis
    using C7_nlargest_sorted_stable [of 5 ESG_Geral "map add_intensity twin_base"]
    by simp
qed

subsection \<open>Trend\<close>

lemma keys_df_trend: "map (\<lambda>t. (t_Ano t, t_Regiao t)) (df_trend vs) = group_keys vs"
  by (simp add: df_trend_def agg_def Let_def comp_def)

lemma less_year_region:
  "((y1::int, g1::string) < (y2, g2)) = (y1 < y2 \<or> (y1 = y2 \<and> g1 < g2))"
  by (auto simp: less_prod_def)

text \<open>
  C8. The trend table has one row for each pair of year and region that occurs in the
  view and no other row, and its rows are in ascending order of the year and, within a
  year, of the region name.
\<close>

theorem C8_trend_groups:
  "distinct (map (\<lambda>t. (t_Ano t, t_Regiao t)) (df_trend vs)) \<and>
   set (map (\<lambda>t. (t_Ano t, t_Regiao t)) (df_trend vs)) = set (map (\<lambda>r. (Ano r, Regiao r)) vs) \<and>
   sorted_wrt (\<lambda>s t. t_Ano s < t_Ano t \<or> (t_Ano s = t_Ano t \<and> t_Regiao s < t_Regiao t))
     (df_trend vs)"
proof -
  have d: "distinct (group_keys vs)" and s: "sorted (group_keys vs)"
    by (simp_all add: group_keys_def)
  have "sorted_wrt (<) (group_keys vs)"
    using d s by (simp add: strict_sorted_iff)
  then have "sorted_wrt (<) (map (\<lambda>t. (t_Ano t, t_Regiao t)) (df_trend vs))"
    by (simp only: keys_df_trend)
  then have "sorted_wrt (\<lambda>s t. (t_Ano s, t_Regiao s) < (t_Ano t, t_Regiao t)) (df_trend vs)"
    by (simp only: sorted_wrt_map)
  then have "sorted_wrt
      (\<lambda>s t. t_Ano s < t_Ano t \<or> (t_Ano s = t_Ano t \<and> t_Regiao s < t_Regiao t)) (df_trend vs)"
    by (simp only: less_year_region)
  moreover have "set (group_keys vs) = set (map (\<lambda>r. (Ano r, Regiao r)) vs)"
    by (simp add: group_keys_def group_key_def)
  ultimately show ?thesis
    using d by (simp only: keys_df_trend)
qed

subsection \<open>Empty views\<close>

lemma show_kpis_empty_view:
  "show_kpis (Table base) (Table []) =
     Inr \<lparr>k_count = \<lparr>m_value = 0,
                      m_delta = (if base = [] then None else Some (- int (length base)))\<rparr>,
          k_esg = \<lparr>m_value = NaN, m_delta = None\<rparr>,
          k_revenue = \<lparr>m_value = NaN, m_delta = None\<rparr>,
          k_emissions = \<lparr>m_value = Fin 0, m_delta = None\<rparr>\<rparr>"
  by (simp add: show_kpis_def kpi_count_def kpi_esg_def kpi_revenue_def kpi_emissions_def
      kpi_of_def bind_def if_truthy_def if_truthy_int_def series_mean_def series_sum_def
      notna_def Let_def)

lemma filter_no_regions: "df_filtered (Table base) (f\<lparr>regions := []\<rparr>) = (Table [], [])"
  by (simp add: df_filtered_def row_mask_def)

lemma fmt_nan: "fmt_1f NaN = ''nan''"
  by (simp add: fmt_1f_def)

text \<open>
  C1, as the script has it. When the view of a loaded table has no rows, the mean score
  and the mean revenue are \<^verbatim>\<open>NaN\<close>, which the metric prints as \<^verbatim>\<open>nan\<close>; neither is
  0. The total of the emissions is 0. No delta of a mean or of the total is computed:
  each is \<^verbatim>\<open>None\<close>, so no \<^verbatim>\<open>NaN\<close> enters a delta.
\<close>

theorem C1_empty_view_kpis:
  "show_kpis (Table base) (Table []) =
     Inr \<lparr>k_count = \<lparr>m_value = 0,
                      m_delta = (if base = [] then None else Some (- int (length base)))\<rparr>,
          k_esg = \<lparr>m_value = NaN, m_delta = None\<rparr>,
          k_revenue = \<lparr>m_value = NaN, m_delta = None\<rparr>,
          k_emissions = \<lparr>m_value = Fin 0, m_delta = None\<rparr>\<rparr> \<and>
   fmt_1f NaN = ''nan''"
  by (simp only: show_kpis_empty_view fmt_nan)

text \<open>
  C1 as stated fails: with no region selected, the view of the two-record table is
  empty and the mean score of the metric is \<^verbatim>\<open>NaN\<close>, printed as \<^verbatim>\<open>nan\<close>.
\<close>

theorem C1_empty_view_mean_is_nan:
  "show_kpis (Table twin_base)
     (fst (df_filtered (Table twin_base) (wide_filters\<lparr>regions := []\<rparr>))) =
     Inr \<lparr>k_count = \<lparr>m_value = 0, m_delta = Some (- 2)\<rparr>,
          k_esg = \<lparr>m_value = NaN, m_delta = None\<rparr>,
          k_revenue = \<lparr>m_value = NaN, m_delta = None\<rparr>,
          k_emissions = \<lparr>m_value = Fin 0, m_delta = None\<rparr>\<rparr> \<and>
   fmt_1f NaN = ''nan''"
  by (simp add: filter_no_regions show_kpis_empty_view fmt_nan twin_base_def)

lemma tabs_empty:
  "tab1 (Table []) = Inr (Warning no_data)" "tab2 (Table []) = Inr (Warning no_data)"
  "tab1 EmptyFrame = Inr (Warning no_data)" "tab2 EmptyFrame = Inr (Warning no_data)"
  by (simp_all add: tab1_def tab2_def)

text \<open>
  C10. With no region selected, no row of the base table passes: the view is the empty
  table, and both tabs show for it the warning they show for every view without rows.
\<close>

theorem C10_no_regions_empty_view:
  "df_filtered (Table base) (f\<lparr>regions := []\<rparr>) = (Table [], []) \<and>
   tab1 (Table []) = Inr (Warning no_data) \<and> tab2 (Table []) = Inr (Warning no_data) \<and>
   tab1 EmptyFrame = Inr (Warning no_data) \<and> tab2 EmptyFrame = Inr (Warning no_data)"
  by (simp only: filter_no_regions tabs_empty)

subsection \<open>Deltas\<close>

lemma kpi_of_tables:
  "kpi_of reduce name (Table base) (Table view) field vfield =
     Inr \<lparr>m_value = reduce (map vfield view),
          m_delta = reported (view \<noteq> [])
                      (fsub (reduce (map vfield view)) (reduce (map field base)))\<rparr>"
  by (simp add: kpi_of_def bind_def if_truthy_def truthy_def reported_def Let_def)

lemma kpi_count_tables:
  "kpi_count (Table base) (Table view) =
     \<lparr>m_value = int (length view),
      m_delta = (if length view \<noteq> length base
                 then Some (int (length view) - int (length base)) else None)\<rparr>"
  by (simp add: kpi_count_def if_truthy_int_def Let_def)

lemma show_kpis_tables:
  "show_kpis (Table base) (Table view) =
     Inr \<lparr>k_count = \<lparr>m_value = int (length view),
                      m_delta = (if length view \<noteq> length base
                                 then Some (int (length view) - int (length base)) else None)\<rparr>,
          k_esg = \<lparr>m_value = series_mean (map ESG_Geral view),
                    m_delta = reported (view \<noteq> [])
                      (fsub (series_mean (map ESG_Geral view)) (series_mean (map ESG_Geral base)))\<rparr>,
          k_revenue = \<lparr>m_value = series_mean (map Receita view),
                    m_delta = reported (view \<noteq> [])
                      (fsub (series_mean (map Receita view)) (series_mean (map Receita base)))\<rparr>,
          k_emissions = \<lparr>m_value = series_sum (map Emissao_Carbono view),
                    m_delta = reported (view \<noteq> [])
                      (fsub (series_sum (map Emissao_Carbono view))
                            (series_sum (map Emissao_Carbono base)))\<rparr>\<rparr>"
  by (simp add: show_kpis_def kpi_esg_def kpi_revenue_def kpi_emissions_def kpi_of_tables
      kpi_count_tables bind_def)

lemma fsub_self: "is_fin s \<Longrightarrow> fsub s s = Fin 0"
  by (cases s) (auto simp: fsub_def)

lemma col_add_intensity:
  "map ESG_Geral (map add_intensity base) = map ESG_Geral base"
  "map Receita (map add_intensity base) = map Receita base"
  "map Emissao_Carbono (map add_intensity base) = map Emissao_Carbono base"
  by (simp_all add: add_intensity_def row.defs vrow.defs)

lemma show_kpis_all_rows:
  assumes "is_fin (series_mean (map ESG_Geral base))"
    and "is_fin (series_mean (map Receita base))"
    and "is_fin (series_sum (map Emissao_Carbono base))"
  shows "show_kpis (Table base) (Table (map add_intensity base)) =
     Inr \<lparr>k_count = \<lparr>m_value = int (length base), m_delta = None\<rparr>,
          k_esg = \<lparr>m_value = series_mean (map ESG_Geral base), m_delta = None\<rparr>,
          k_revenue = \<lparr>m_value = series_mean (map Receita base), m_delta = None\<rparr>,
          k_emissions = \<lparr>m_value = series_sum (map Emissao_Carbono base), m_delta = None\<rparr>\<rparr>"
  using assms
  by (simp only: show_kpis_tables col_add_intensity length_map fsub_self reported_def) simp

text \<open>
  C6, as the script has it. The count delta is passed to the metric exactly when the
  numbers of rows differ. Each of the other three deltas is passed exactly when the view
  has rows and the difference is not exactly zero (a \<^verbatim>\<open>NaN\<close> difference is passed). So
  a delta of exactly 0 is never shown, whether or not the view differs from the base
  table, and when every row passes and the base table's statistics are finite no delta
  is shown.
\<close>

theorem C6_deltas_reported:
  "show_kpis (Table base) (Table view) =
     Inr \<lparr>k_count = \<lparr>m_value = int (length view),
                      m_delta = (if length view \<noteq> length base
                                 then Some (int (length view) - int (length base)) else None)\<rparr>,
          k_esg = \<lparr>m_value = series_mean (map ESG_Geral view),
                    m_delta = reported (view \<noteq> [])
                      (fsub (series_mean (map ESG_Geral view)) (series_mean (map ESG_Geral base)))\<rparr>,
          k_revenue = \<lparr>m_value = series_mean (map Receita view),
                    m_delta = reported (view \<noteq> [])
                      (fsub (series_mean (map Receita view)) (series_mean (map Receita base)))\<rparr>,
          k_emissions = \<lparr>m_value = series_sum (map Emissao_Carbono view),
                    m_delta = reported (view \<noteq> [])
                      (fsub (series_sum (map Emissao_Carbono view))
                            (series_sum (map Emissao_Carbono base)))\<rparr>\<rparr> \<and>
   (is_fin (series_mean (map ESG_Geral base)) \<and> is_fin (series_mean (map Receita base)) \<and>
    is_fin (series_sum (map Emissao_Carbono base)) \<longrightarrow>
    show_kpis (Table base) (Table (map add_intensity base)) =
     Inr \<lparr>k_count = \<lparr>m_value = int (length base), m_delta = None\<rparr>,
          k_esg = \<lparr>m_value = series_mean (map ESG_Geral base), m_delta = None\<rparr>,
          k_revenue = \<lparr>m_value = series_mean (map Receita base), m_delta = None\<rparr>,
          k_emissions = \<lparr>m_value = series_sum (map Emissao_Carbono base), m_delta = None\<rparr>\<rparr>)"
  using show_kpis_tables [of base view] show_kpis_all_rows [of base] by blast

lemma twin_stats:
  "series_mean (map ESG_Geral twin_base) = Fin 50"
  "series_mean (map Receita twin_base) = Fin 100"
  "series_sum (map Emissao_Carbono twin_base) = Fin 0"
  by (simp_all add: twin_base_def example_row_def series_mean_def series_sum_def notna_def)

theorem C6_deltas_reported_witness:
  "is_fin (series_mean (map ESG_Geral twin_base)) \<and>
   is_fin (series_mean (map Receita twin_base)) \<and>
   is_fin (series_sum (map Emissao_Carbono twin_base)) \<and>
   show_kpis (Table twin_base) (Table (map add_intensity twin_base)) =
     Inr \<lparr>k_count = \<lparr>m_value = 2, m_delta = None\<rparr>,
          k_esg = \<lparr>m_value = Fin 50, m_delta = None\<rparr>,
          k_revenue = \<lparr>m_value = Fin 100, m_delta = None\<rparr>,
          k_emissions = \<lparr>m_value = Fin 0, m_delta = None\<rparr>\<rparr>"
proof -
  have fin: "is_fin (series_mean (map ESG_Geral twin_base)) \<and>
      is_fin (series_mean (map Receita twin_base)) \<and>
      is_fin (series_sum (map Emissao_Carbono twin_base))"
    by (simp add: twin_stats)
  have "length twin_base = 2"
    by (simp add: twin_base_def)
  with fin C6_deltas_reported [of twin_base "[]"] show ?thesis
    by (simp add: twin_stats)
qed

lemma twin_view:
  "df_filtered (Table twin_base) only_2020 = (Table [add_intensity (hd twin_base)], [])"
  by (simp add: df_filtered_def row_mask_def twin_base_def example_row_def only_2020_def
      wide_filters_def fge_def num_def)

text \<open>
  C6 as stated fails: of the two records, the filter keeps the one of 2020, so the view
  differs from the base table (the count delta \<open>-1\<close> is shown), and the deltas of the
  mean score, the mean revenue and the emissions, all exactly 0, are not.
\<close>

theorem C6_zero_delta_not_shown:
  "show_kpis (Table twin_base) (fst (df_filtered (Table twin_base) only_2020)) =
     Inr \<lparr>k_count = \<lparr>m_value = 1, m_delta = Some (- 1)\<rparr>,
          k_esg = \<lparr>m_value = Fin 50, m_delta = None\<rparr>,
          k_revenue = \<lparr>m_value = Fin 100, m_delta = None\<rparr>,
          k_emissions = \<lparr>m_value = Fin 0, m_delta = None\<rparr>\<rparr>"
proof -
  have view_stats:
    "series_mean (map ESG_Geral [add_intensity (hd twin_base)]) = Fin 50"
    "series_mean (map Receita [add_intensity (hd twin_base)]) = Fin 100"
    "series_sum (map Emissao_Carbono [add_intensity (hd twin_base)]) = Fin 0"
    by (simp_all add: twin_base_def example_row_def add_intensity_def row.defs vrow.defs
        series_mean_def series_sum_def notna_def)
  have "length twin_base = 2"
    by (simp add: twin_base_def)
  then show ?thesis
    by (simp only: twin_view fst_conv show_kpis_tables view_stats twin_stats)
      (simp add: reported_def fsub_def)
qed

subsection \<open>Emission intensity\<close>








lemma mixed_intensities:
  "map Emissao_por_Receita (map add_intensity mixed_base)
   = [PInf, NaN, Fin (1 / 20), NaN, Fin (1 / 20), Fin (3 / 20), NInf]"
  by (simp add: mixed_base_def example_row_def add_intensity_def row.defs vrow.defs)





subsection \<open>The example\<close>

lemma example_view:
  assumes "in_range (Fin (- 100), Fin 100) m1" "in_range (Fin (- 100), Fin 100) m2"
    "in_range (Fin (- 100), Fin 100) m3"
  shows "df_filtered (Table (example_base m1 m2 m3 e1 e2 e3)) example_filters
         = (Table (map add_intensity (example_base m1 m2 m3 e1 e2 e3)), [])"
  using assms
  by (simp add: df_filtered_def row_mask_def example_base_def example_row_def
      example_filters_def in_range_def fge_def num_def)

lemma example_esg:
  "map ESG_Geral (map add_intensity (example_base m1 m2 m3 e1 e2 e3)) = [Fin 50, Fin 80, Fin 60]"
  by (simp add: example_base_def example_row_def add_intensity_def row.defs vrow.defs)

lemma example_mean: "series_mean [Fin 50, Fin 80, Fin 60] = Fin (190 / 3)"
  by (simp add: series_mean_def series_sum_def notna_def)

lemma example_fmt: "fmt_1f (Fin (190 / 3)) = ''63.3''"
  by code_simp

lemma example_top:
  "map Nome_Compania (nlargest 1 ESG_Geral (map add_intensity (example_base m1 m2 m3 e1 e2 e3)))
   = [''Beta'']"
  by (simp add: nlargest_def ranked_def sort_desc_def example_base_def example_row_def
      add_intensity_def row.defs vrow.defs)

lemma example_keys:
  "group_keys (map add_intensity (example_base m1 m2 m3 e1 e2 e3))
   = [(2020, ''EU''), (2020, ''NA''), (2021, ''NA'')]"
  by (simp add: group_keys_def group_key_def example_base_def example_row_def
      add_intensity_def row.defs vrow.defs)

lemma example_trend:
  "map (\<lambda>t. (t_Ano t, t_Regiao t, t_ESG_Geral t))
     (df_trend (map add_intensity (example_base m1 m2 m3 e1 e2 e3)))
   = [(2020, ''EU'', Fin 80), (2020, ''NA'', Fin 50), (2021, ''NA'', Fin 60)]"
proof -
  have "df_trend (map add_intensity (example_base m1 m2 m3 e1 e2 e3))
        = map (agg (map add_intensity (example_base m1 m2 m3 e1 e2 e3)))
            [(2020, ''EU''), (2020, ''NA''), (2021, ''NA'')]"
    by (simp only: df_trend_def example_keys)
  then show ?thesis
    by (simp add: agg_def Let_def group_rows_def group_key_def
      example_base_def example_row_def add_intensity_def row.defs vrow.defs
      series_mean_def series_sum_def notna_def)
qed

text \<open>
  C9. On the three-record table, whatever the emissions and for margins within the
  margin range, the filters of the example let the three rows through in their order;
  the count is 3 and the mean score \<open>190 / 3\<close>, printed \<open>63.3\<close>; the ranking of one row
  by score is Beta's; and the trend table has the groups \<open>(2020, EU)\<close>, \<open>(2020, NA)\<close>
  and \<open>(2021, NA)\<close> in this order, with the mean scores 80, 50 and 60.
\<close>

theorem C9_example:
  assumes "in_range (Fin (- 100), Fin 100) m1" and "in_range (Fin (- 100), Fin 100) m2"
    and "in_range (Fin (- 100), Fin 100) m3"
  shows "\<exists>view kpis.
     df_filtered (Table (example_base m1 m2 m3 e1 e2 e3)) example_filters = (Table view, []) \<and>
     map row.truncate view = example_base m1 m2 m3 e1 e2 e3 \<and>
     show_kpis (Table (example_base m1 m2 m3 e1 e2 e3)) (Table view) = Inr kpis \<and>
     m_value (k_count kpis) = 3 \<and>
     m_value (k_esg kpis) = Fin (190 / 3) \<and>
     fmt_1f (m_value (k_esg kpis)) = ''63.3'' \<and>
     map Nome_Compania (nlargest 1 ESG_Geral view) = [''Beta''] \<and>
     map (\<lambda>t. (t_Ano t, t_Regiao t, t_ESG_Geral t)) (df_trend view)
       = [(2020, ''EU'', Fin 80), (2020, ''NA'', Fin 50), (2021, ''NA'', Fin 60)]"
proof -
  let ?base = "example_base m1 m2 m3 e1 e2 e3"
  let ?view = "map add_intensity ?base"
  have "length ?base = 3"
    by (simp add: example_base_def)
  moreover have "series_mean (map ESG_Geral ?view) = Fin (190 / 3)"
    by (simp only: example_esg example_mean)
  ultimately have "\<exists>kpis. show_kpis (Table ?base) (Table ?view) = Inr kpis \<and>
     m_value (k_count kpis) = 3 \<and> m_value (k_esg kpis) = Fin (190 / 3) \<and>
     fmt_1f (m_value (k_esg kpis)) = ''63.3''"
    by (simp add: show_kpis_tables example_fmt del: map_map)
  then obtain kpis where kpis: "show_kpis (Table ?base) (Table ?view) = Inr kpis"
    "m_value (k_count kpis) = 3" "m_value (k_esg kpis) = Fin (190 / 3)"
    "fmt_1f (m_value (k_esg kpis)) = ''63.3''"
    by auto
  have "map row.truncate ?view = ?base"
    by (simp add: comp_def truncate_add_intensity)
  with kpis example_view [OF assms, of e1 e2 e3] example_top [of m1 m2 m3 e1 e2 e3]
    example_trend [of m1 m2 m3 e1 e2 e3]
  show ?thesis
    by (intro exI [of _ ?view] exI [of _ kpis] conjI)
qed

theorem C9_example_witness:
  "in_range (Fin (- 100), Fin 100) (Fin 10) \<and>
   (\<exists>view kpis.
     df_filtered (Table (example_base (Fin 10) (Fin 10) (Fin 10) (Fin 1) (Fin 2) (Fin 3)))
       example_filters = (Table view, []) \<and>
     map row.truncate view = example_base (Fin 10) (Fin 10) (Fin 10) (Fin 1) (Fin 2) (Fin 3) \<and>
     show_kpis (Table (example_base (Fin 10) (Fin 10) (Fin 10) (Fin 1) (Fin 2) (Fin 3)))
       (Table view) = Inr kpis \<and>
     m_value (k_count kpis) = 3 \<and>
     m_value (k_esg kpis) = Fin (190 / 3) \<and>
     fmt_1f (m_value (k_esg kpis)) = ''63.3'' \<and>
     map Nome_Compania (nlargest 1 ESG_Geral view) = [''Beta''] \<and>
     map (\<lambda>t. (t_Ano t, t_Regiao t, t_ESG_Geral t)) (df_trend view)
       = [(2020, ''EU'', Fin 80), (2020, ''NA'', Fin 50), (2021, ''NA'', Fin 60)])"
proof -
  have m: "in_range (Fin (- 100), Fin 100) (Fin 10)"
    by (simp add: in_range_def)
  show ?thesis
    using m C9_example [OF m m m, of "Fin 1" "Fin 2" "Fin 3"] by (rule conjI)
qed

subsection \<open>A source that cannot be loaded\<close>

lemma init_reset_empty:
  "init_reset EmptyFrame ss = (if reset ss = None then Inl (KeyError ''Ano'') else Inr ss)"
  by (simp add: init_reset_def bind_def)

lemma body_empty: "body EmptyFrame msgs ss = Inl (KeyError ''Ano'')"
  by (simp add: body_def sidebar_def bind_def)

lemma press_reset_cases:
  "press_reset ss = (case reset ss of None \<Rightarrow> Inl (AttributeError ''reset'')
     | Some b \<Rightarrow> Inr (ss\<lparr>ss_year_range := Some (b_year_range b), ss_regions := Some (b_regions b),
               ss_revenue_range := Some (b_revenue_range b),
               ss_margin_range := Some (b_margin_range b)\<rparr>))"
  by (simp add: press_reset_def the_reset_def bind_def split: option.splits)

lemma script_empty_frame:
  "load_data parse_int parse_float src = (EmptyFrame, msgs) \<Longrightarrow>
   script parse_int parse_float src pressed ss = Inl (KeyError ''Ano'')"
  by (cases "reset ss")
    (simp_all add: script_def init_reset_empty body_empty press_reset_cases bind_def)

text \<open>
  C2, on the script. Whenever reading or converting the source raises, \<^verbatim>\<open>load_data\<close>
  returns \<^verbatim>\<open>pd.DataFrame()\<close> and shows the message of the exception. The run of the
  script then ends with a \<^verbatim>\<open>KeyError\<close> for the column \<^verbatim>\<open>Ano\<close> that nothing catches,
  in every session state and whether or not the reset button was pressed: nothing of the
  dashboard after the loader is shown.
\<close>

theorem C2_load_failure_ends_run:
  assumes "load_data_try parse_int parse_float src = Inl e"
  shows "load_data parse_int parse_float src
           = (EmptyFrame, [''Erro ao carregar dados: '' @ str e]) \<and>
         script parse_int parse_float src pressed ss = Inl (KeyError ''Ano'')"
proof -
  have "load_data parse_int parse_float src
           = (EmptyFrame, [''Erro ao carregar dados: '' @ str e])"
    using assms by (simp add: load_data_def)
  then show ?thesis
    using script_empty_frame by blast
qed

theorem C2_load_failure_ends_run_witness:
  "load_data_try (\<lambda>t. None) (\<lambda>t. None) (Inl (ReadError ''No such file''))
     = Inl (ReadError ''No such file'') \<and>
   load_data (\<lambda>t. None) (\<lambda>t. None) (Inl (ReadError ''No such file''))
     = (EmptyFrame, [''Erro ao carregar dados: No such file'']) \<and>
   script (\<lambda>t. None) (\<lambda>t. None) (Inl (ReadError ''No such file'')) False fresh_session
     = Inl (KeyError ''Ano'')"
proof -
  have f: "load_data_try (\<lambda>t. None) (\<lambda>t. None) (Inl (ReadError ''No such file''))
     = Inl (ReadError ''No such file'')"
    by (simp add: load_data_try_def bind_def)
  show ?thesis
    using f C2_load_failure_ends_run [OF f, of False fresh_session] by simp
qed

subsection \<open>Reset\<close>

lemma apply_update_keeps:
  "reset (apply_update ss u) = reset ss"
  "next_addr ss \<le> next_addr (apply_update ss u)"
  "a < next_addr ss \<Longrightarrow> lists (apply_update ss u) a = lists ss a"
  by (cases u; simp add: alloc_def)+

lemma updates_keep:
  "reset (foldl apply_update ss us) = reset ss \<and>
   next_addr ss \<le> next_addr (foldl apply_update ss us) \<and>
   (a < next_addr ss \<longrightarrow> lists (foldl apply_update ss us) a = lists ss a)"
proof (induction us arbitrary: ss)
  case Nil
  then show ?case by simp
next
  case (Cons u us)
  have "next_addr ss \<le> next_addr (apply_update ss u)"
    by (rule apply_update_keeps)
  moreover have "a < next_addr ss \<longrightarrow> lists (apply_update ss u) a = lists ss a"
    by (simp add: apply_update_keeps)
  moreover have "reset (apply_update ss u) = reset ss"
    by (rule apply_update_keeps)
  ultimately show ?case
    using Cons.IH [of "apply_update ss u"] by auto
qed

lemma init_reset_table:
  assumes "reset ss0 = None" and "init_reset (Table base) ss0 = Inr s0"
  shows "\<exists>b. reset s0 = Some b \<and> b_regions b < next_addr s0 \<and>
     lists s0 (b_regions b) = Some (sort (remdups (map Regiao base)))"
  using assms by (auto simp: init_reset_def bind_def alloc_def)

text \<open>
  C5, as the script has it. After the baseline has been created from a table, and after
  any sequence of changes of the widgets, the loop of the reset button binds each key of
  the live state to the baseline's value: the three ranges, and for the regions the
  reference to the baseline's own list, which holds the sorted distinct regions of the
  table. The changes that the widgets make afterwards bind keys to new values; they
  leave the baseline and its list as they were.
\<close>

theorem C5_reset_restores_baseline:
  assumes "reset ss0 = None" and "init_reset (Table base) ss0 = Inr s0"
  shows "\<exists>b s. reset s0 = Some b \<and> press_reset (foldl apply_update s0 us) = Inr s \<and>
     ss_year_range s = Some (b_year_range b) \<and> ss_regions s = Some (b_regions b) \<and>
     ss_revenue_range s = Some (b_revenue_range b) \<and>
     ss_margin_range s = Some (b_margin_range b) \<and>
     deref s (b_regions b) = sort (remdups (map Regiao base)) \<and>
     reset (foldl apply_update s us2) = Some b \<and>
     deref (foldl apply_update s us2) (b_regions b) = sort (remdups (map Regiao base))"
proof -
  obtain b where b: "reset s0 = Some b" "b_regions b < next_addr s0"
    "lists s0 (b_regions b) = Some (sort (remdups (map Regiao base)))"
    using init_reset_table [OF assms] by blast
  let ?s1 = "foldl apply_update s0 us"
  have s1: "reset ?s1 = Some b" "next_addr s0 \<le> next_addr ?s1"
    "lists ?s1 (b_regions b) = lists s0 (b_regions b)"
    using updates_keep [of s0 us "b_regions b"] b by auto
  let ?s = "?s1\<lparr>ss_year_range := Some (b_year_range b), ss_regions := Some (b_regions b),
               ss_revenue_range := Some (b_revenue_range b),
               ss_margin_range := Some (b_margin_range b)\<rparr>"
  have p: "press_reset ?s1 = Inr ?s"
    by (simp add: press_reset_cases s1)
  have s: "reset ?s = Some b" "b_regions b < next_addr ?s"
    "lists ?s (b_regions b) = Some (sort (remdups (map Regiao base)))"
    using s1 b by auto
  have "reset (foldl apply_update ?s us2) = Some b"
    "lists (foldl apply_update ?s us2) (b_regions b) = Some (sort (remdups (map Regiao base)))"
    using updates_keep [of ?s us2 "b_regions b"] s by auto
  with b p s show ?thesis
    by (intro exI [of _ b] exI [of _ ?s]) (simp add: deref_def)
qed

lemma twin_init: "init_reset (Table twin_base) fresh_session = Inr twin_session"
  by (simp add: init_reset_def fresh_session_def bind_def alloc_def twin_session_def
      twin_base_def example_row_def series_min_def series_max_def notna_def num_def)

theorem C5_reset_restores_baseline_witness:
  "reset fresh_session = None \<and>
   init_reset (Table twin_base) fresh_session = Inr twin_session \<and>
   (\<exists>b s. reset twin_session = Some b \<and>
     press_reset (foldl apply_update twin_session
        [SetRegions [''EU''], SetYears (Fin 2020, Fin 2020)]) = Inr s \<and>
     ss_year_range s = Some (b_year_range b) \<and> ss_regions s = Some (b_regions b) \<and>
     ss_revenue_range s = Some (b_revenue_range b) \<and>
     ss_margin_range s = Some (b_margin_range b) \<and>
     deref s (b_regions b) = sort (remdups (map Regiao twin_base)) \<and>
     reset (foldl apply_update s [SetRegions []]) = Some b \<and>
     deref (foldl apply_update s [SetRegions []]) (b_regions b)
       = sort (remdups (map Regiao twin_base)))"
proof -
  have n: "reset fresh_session = None"
    by (simp add: fresh_session_def)
  show ?thesis
    using n twin_init
      C5_reset_restores_baseline [OF n twin_init,
        of "[SetRegions [''EU''], SetYears (Fin 2020, Fin 2020)]" "[SetRegions []]"]
    by (intro conjI)
qed

text \<open>
  C5 as stated fails: after the loop of the reset button on the session of the
  two-record table, the key of the regions holds reference 0, and reference 0 is what
  the baseline holds: the live state and the baseline share one list, there is no copy.
\<close>

theorem C5_reset_shares_list:
  "(case bind (init_reset (Table twin_base) fresh_session) press_reset of
      Inl e \<Rightarrow> False
    | Inr s \<Rightarrow> ss_regions s = Some 0 \<and> map_option b_regions (reset s) = Some 0)"
  by (simp add: twin_init bind_def press_reset_cases twin_session_def)

end
